theory Spec2Isabelle
  imports Main "HOL-Library.Sublist"
begin

section \<open>Python values used by the plugin\<close>

text \<open>
  A Python \<open>str\<close> is a sequence of Unicode code points; it is modelled as a list of
  natural numbers. \<open>py\<close> embeds an ASCII literal of the source.
\<close>

type_synonym pystr = "nat list"

definition py :: "string \<Rightarrow> pystr" where
  "py cs = map of_char cs"

text \<open>
  The values \<open>json.load\<close> and \<open>response.json()\<close> produce. A dict is an association
  list (first binding of a key counts). JSON numbers with a fraction or an exponent
  (Python floats) are not represented.
\<close>

datatype json =
    JNull
  | JBool bool
  | JInt int
  | JStr pystr
  | JList "json list"
  | JDict "(pystr \<times> json) list"

text \<open>The exceptions that can leave the plugin's own code.\<close>

datatype pyerr = TypeError | AttributeError

text \<open>Python truthiness (\<open>if x\<close>, \<open>not x\<close>).\<close>

fun truthy :: "json \<Rightarrow> bool" where
  "truthy JNull = False"
| "truthy (JBool b) = b"
| "truthy (JInt n) = (n \<noteq> 0)"
| "truthy (JStr s) = (s \<noteq> [])"
| "truthy (JList xs) = (xs \<noteq> [])"
| "truthy (JDict kvs) = (kvs \<noteq> [])"

subsection \<open>String operations\<close>

text \<open>\<open>str.isspace\<close> for one code point (the white space table of CPython 3).\<close>

definition isspace :: "nat \<Rightarrow> bool" where
  "isspace c \<longleftrightarrow>
     (9 \<le> c \<and> c \<le> 13) \<or> (28 \<le> c \<and> c \<le> 32) \<or> c = 133 \<or> c = 160 \<or> c = 5760 \<or>
     (8192 \<le> c \<and> c \<le> 8202) \<or> c = 8232 \<or> c = 8233 \<or> c = 8239 \<or> c = 8287 \<or> c = 12288"

text \<open>\<open>s.strip()\<close>: leading and trailing white space removed.\<close>

definition strip :: "pystr \<Rightarrow> pystr" where
  "strip s = rev (dropWhile isspace (rev (dropWhile isspace s)))"

text \<open>\<open>s.rstrip('/')\<close>.\<close>

definition rstrip_slash :: "pystr \<Rightarrow> pystr" where
  "rstrip_slash s = rev (dropWhile (\<lambda>c. c = 47) (rev s))"

text \<open>\<open>s.startswith(p)\<close>.\<close>

definition startswith :: "pystr \<Rightarrow> pystr \<Rightarrow> bool" where
  "startswith s p = prefix p s"

text \<open>\<open>s.split(" ", 1)\<close>: split at the first space, if there is one.\<close>

definition split1 :: "pystr \<Rightarrow> pystr list" where
  "split1 s =
     (if 32 \<in> set s then [takeWhile (\<lambda>c. c \<noteq> 32) s, tl (dropWhile (\<lambda>c. c \<noteq> 32) s)]
      else [s])"

text \<open>\<open>sep.join(xs)\<close>.\<close>

fun join :: "pystr \<Rightarrow> pystr list \<Rightarrow> pystr" where
  "join sep [] = []"
| "join sep [x] = x"
| "join sep (x # y # ys) = x @ sep @ join sep (y # ys)"

text \<open>\<open>str(n)\<close> for an integer: decimal digits, with a minus sign below zero.\<close>

function digits :: "nat \<Rightarrow> pystr" where
  "digits n = (if n < 10 then [48 + n] else digits (n div 10) @ [48 + n mod 10])"
  by pat_completeness auto
termination
  by (relation "measure (\<lambda>n. n)") auto

declare digits.simps [simp del]

definition str_int :: "int \<Rightarrow> pystr" where
  "str_int i = (if i < 0 then 45 # digits (nat (- i)) else digits (nat i))"

text \<open>
  \<open>repr(v)\<close> and \<open>str(v)\<close> (what an f-string inserts). \<open>repr\<close> of a \<open>str\<close> is the
  interpreter's quoting and escaping; it is the parameter \<open>R\<close>.
\<close>

fun repr_json :: "(pystr \<Rightarrow> pystr) \<Rightarrow> json \<Rightarrow> pystr" where
  "repr_json R JNull = py ''None''"
| "repr_json R (JBool b) = (if b then py ''True'' else py ''False'')"
| "repr_json R (JInt n) = str_int n"
| "repr_json R (JStr s) = R s"
| "repr_json R (JList xs) = py ''['' @ join (py '', '') (map (repr_json R) xs) @ py '']''"
| "repr_json R (JDict kvs) =
     py ''{'' @ join (py '', '') (map (\<lambda>kv. R (fst kv) @ py '': '' @ repr_json R (snd kv)) kvs)
       @ py ''}''"

definition str_json :: "(pystr \<Rightarrow> pystr) \<Rightarrow> json \<Rightarrow> pystr" where
  "str_json R v = (case v of JStr s \<Rightarrow> s | _ \<Rightarrow> repr_json R v)"

subsection \<open>Dict operations\<close>

text \<open>\<open>d.get(k, default)\<close>, \<open>k in d\<close> and \<open>d[k] = v\<close> on the bindings of a dict.\<close>

definition dict_get :: "(pystr \<times> json) list \<Rightarrow> pystr \<Rightarrow> json \<Rightarrow> json" where
  "dict_get kvs k d = (case map_of kvs k of Some v \<Rightarrow> v | None \<Rightarrow> d)"

definition dict_has :: "(pystr \<times> json) list \<Rightarrow> pystr \<Rightarrow> bool" where
  "dict_has kvs k = (map_of kvs k \<noteq> None)"

fun dict_set :: "(pystr \<times> json) list \<Rightarrow> pystr \<Rightarrow> json \<Rightarrow> (pystr \<times> json) list" where
  "dict_set [] k v = [(k, v)]"
| "dict_set ((k', v') # kvs) k v =
     (if k' = k then (k, v) # kvs else (k', v') # dict_set kvs k v)"

section \<open>Configuration\<close>

text \<open>
  The plugin object: \<open>self.server_url\<close> and \<open>self.api_key\<close>. Both hold whatever the
  configuration file gave, so they are JSON values.
\<close>

record plugin =
  server_url :: json
  api_key :: json

text \<open>
  \<open>config.json\<close> as \<open>load_config\<close> and \<open>save_config\<close> see it: absent, present but
  not loadable (\<open>open\<close> or \<open>json.load\<close> raises), or present with the value
  \<open>json.load\<close> returns.
\<close>

datatype config_file = NoFile | Unloadable | Loaded json

text \<open>The local \<open>config\<close> after the guarded read: \<open>{}\<close> unless the file loads.\<close>

definition read_config :: "config_file \<Rightarrow> json" where
  "read_config f = (case f of Loaded v \<Rightarrow> v | _ \<Rightarrow> JDict [])"

text \<open>
  \<open>load_config\<close>. On a dict every step succeeds. \<open>"port" in config\<close> raises
  \<open>TypeError\<close> on \<open>None\<close>, a bool or an int, is membership on a list and a
  substring test on a string; \<open>config["port"]\<close> then raises \<open>TypeError\<close> and
  \<open>config.get\<close> raises \<open>AttributeError\<close>, so every value that is not a dict ends in
  an exception.
\<close>

definition load_config :: "(pystr \<Rightarrow> pystr) \<Rightarrow> config_file \<Rightarrow> pyerr + plugin" where
  "load_config R f =
     (case read_config f of
        JDict config \<Rightarrow>
          (let port = (if dict_has config (py ''port'')
                       then str_json R (dict_get config (py ''port'') JNull)
                       else py ''3000'');
               self = \<lparr>server_url = JStr (py ''http://localhost:'' @ port),
                       api_key = dict_get config (py ''api_key'') (JStr [])\<rparr>
           in Inr (if dict_has config (py ''server_url'')
                   then self\<lparr>server_url := dict_get config (py ''server_url'') JNull\<rparr>
                   else self))
      | JList xs \<Rightarrow> (if JStr (py ''port'') \<in> set xs then Inl TypeError else Inl AttributeError)
      | JStr s \<Rightarrow> (if sublist (py ''port'') s then Inl TypeError else Inl AttributeError)
      | _ \<Rightarrow> Inl TypeError)"

text \<open>
  What the environment does to the write of \<open>save_config\<close>: it goes through,
  \<open>open(..., 'w')\<close> raises (the file is untouched), or \<open>json.dump\<close> raises after the
  file was truncated.
\<close>

datatype write_outcome = WriteOk | OpenFails | DumpFails

text \<open>
  \<open>save_config\<close>: the returned bool, the file afterwards and the plugin afterwards.
  \<open>config["server_url"] = ...\<close> raises \<open>TypeError\<close> on everything but a dict; the
  outer \<open>except\<close> turns every exception into \<open>False\<close>.
\<close>

definition save_config ::
  "write_outcome \<Rightarrow> config_file \<Rightarrow> plugin \<Rightarrow> json \<Rightarrow> json \<Rightarrow> bool \<times> config_file \<times> plugin" where
  "save_config w f self url key =
     (case read_config f of
        JDict config \<Rightarrow>
          (let config' = dict_set (dict_set config (py ''server_url'') url) (py ''api_key'') key
           in case w of
                OpenFails \<Rightarrow> (False, f, self)
              | DumpFails \<Rightarrow> (False, Unloadable, self)
              | WriteOk \<Rightarrow>
                  (True, Loaded (JDict config'), self\<lparr>server_url := url, api_key := key\<rparr>))
      | _ \<Rightarrow> (False, f, self))"

section \<open>The environment of a query\<close>

text \<open>
  One \<open>requests.get(url, headers={"X-API-Key": key}, params=params, timeout=5)\<close>, and
  what comes of it: an exception, or a response with its status code and the value of
  \<open>response.json()\<close> (\<open>None\<close> when the body is not valid JSON and \<open>json()\<close>
  raises).
\<close>

record http_request =
  req_url :: pystr
  req_api_key :: json
  req_params :: "(pystr \<times> json) list"

datatype http_outcome = Raises | Response int "json option"

text \<open>
  What the plugin's code does not define itself: whether \<open>import requests\<close>
  succeeded, the remote service behind \<open>requests.get\<close>, \<open>urlparse(url).netloc\<close>
  for a \<open>str\<close> (\<open>None\<close> when \<open>urlparse\<close> raises) and \<open>repr\<close> of a \<open>str\<close>.
\<close>

record env =
  has_requests :: bool
  http_get :: "http_request \<Rightarrow> http_outcome"
  urlparse_netloc :: "pystr \<Rightarrow> pystr option"
  repr_str :: "pystr \<Rightarrow> pystr"

text \<open>
  \<open>api_request\<close>: the value returned (\<open>JNull\<close> is Python's \<open>None\<close>) and the
  requests sent. \<open>self.server_url.rstrip\<close> raises \<open>AttributeError\<close> inside the
  \<open>try\<close> when \<open>server_url\<close> is not a string, before anything is sent.
\<close>

definition api_request ::
  "env \<Rightarrow> plugin \<Rightarrow> pystr \<Rightarrow> (pystr \<times> json) list \<Rightarrow> json \<times> http_request list" where
  "api_request E self endpoint params =
     (if \<not> has_requests E then (JNull, [])
      else if \<not> truthy (api_key self) then (JNull, [])
      else case server_url self of
             JStr s \<Rightarrow>
               (let req = \<lparr>req_url = rstrip_slash s @ py ''/api'' @ endpoint,
                           req_api_key = api_key self, req_params = params\<rparr>
                in (case http_get E req of
                      Raises \<Rightarrow> JNull
                    | Response status body \<Rightarrow>
                        (if status = 200 then (case body of Some v \<Rightarrow> v | None \<Rightarrow> JNull)
                         else JNull),
                    [req]))
           | _ \<Rightarrow> (JNull, []))"

section \<open>Display entries\<close>

text \<open>
  A subtitle is a JSON value or, when \<open>urlparse\<close> was given a falsy value that is
  not a string, the \<open>bytes\<close> object it returns.
\<close>

datatype pyval = Py json | PyBytes pystr

record action =
  "method" :: pystr
  parameters :: "json list"

record entry =
  Title :: json
  SubTitle :: pyval
  IcoPath :: pystr
  JsonRPCAction :: "action option"

text \<open>The fixed entries of \<open>query\<close>; code point 39 is the apostrophe.\<close>

definition missing_requests_entry :: entry where
  "missing_requests_entry =
     \<lparr>Title = JStr (py ''Missing '' @ [39] @ py ''requests'' @ [39] @ py '' library''),
      SubTitle = Py (JStr (py ''Run: pip install requests'')),
      IcoPath = py ''icon.png'',
      JsonRPCAction = Some \<lparr>method = py ''open_url'',
                             parameters = [JStr (py ''https://pypi.org/project/requests/'')]\<rparr>\<rparr>"

definition config_confirm_entry :: "pystr \<Rightarrow> pystr \<Rightarrow> entry" where
  "config_confirm_entry url key =
     \<lparr>Title = JStr (py ''Set API Key and connect to '' @ url),
      SubTitle = Py (JStr (py ''Press Enter to save configuration'')),
      IcoPath = py ''icon.png'',
      JsonRPCAction = Some \<lparr>method = py ''configure'', parameters = [JStr url, JStr key]\<rparr>\<rparr>"

definition config_usage_entry :: entry where
  "config_usage_entry =
     \<lparr>Title = JStr (py ''Configure AnchorMarks''),
      SubTitle = Py (JStr (py ''Usage: lv config <server_url> <api_key>'')),
      IcoPath = py ''icon.png'',
      JsonRPCAction = None\<rparr>"

definition not_configured_entry :: entry where
  "not_configured_entry =
     \<lparr>Title = JStr (py ''AnchorMarks not configured''),
      SubTitle = Py (JStr (py ''Type: lv config http://localhost:3000 your_api_key'')),
      IcoPath = py ''icon.png'',
      JsonRPCAction = None\<rparr>"

definition cannot_connect_entry :: "env \<Rightarrow> plugin \<Rightarrow> entry" where
  "cannot_connect_entry E self =
     \<lparr>Title = JStr (py ''Cannot connect to AnchorMarks''),
      SubTitle = Py (JStr (py ''Check if server is running at ''
                             @ str_json (repr_str E) (server_url self))),
      IcoPath = py ''icon.png'',
      JsonRPCAction = None\<rparr>"

definition no_bookmarks_entry :: "plugin \<Rightarrow> entry" where
  "no_bookmarks_entry self =
     \<lparr>Title = JStr (py ''No bookmarks found''),
      SubTitle = Py (JStr (py ''Add some bookmarks in AnchorMarks'')),
      IcoPath = py ''icon.png'',
      JsonRPCAction = Some \<lparr>method = py ''open_url'', parameters = [server_url self]\<rparr>\<rparr>"

definition top_header_entry :: entry where
  "top_header_entry =
     \<lparr>Title = JStr (py ''Your Top Bookmarks''),
      SubTitle = Py (JStr (py ''Type to search or select a bookmark below'')),
      IcoPath = py ''icon.png'',
      JsonRPCAction = None\<rparr>"

definition add_entry :: "pystr \<Rightarrow> entry" where
  "add_entry url =
     \<lparr>Title = JStr (py ''Add bookmark: '' @ url),
      SubTitle = Py (JStr (py ''Press Enter to add this URL to AnchorMarks'')),
      IcoPath = py ''icon.png'',
      JsonRPCAction = Some \<lparr>method = py ''add_bookmark'', parameters = [JStr url]\<rparr>\<rparr>"

definition open_entry :: "env \<Rightarrow> plugin \<Rightarrow> entry" where
  "open_entry E self =
     \<lparr>Title = JStr (py ''Open AnchorMarks''),
      SubTitle = Py (JStr (py ''Open '' @ str_json (repr_str E) (server_url self)
                             @ py '' in browser'')),
      IcoPath = py ''icon.png'',
      JsonRPCAction = Some \<lparr>method = py ''open_url'', parameters = [server_url self]\<rparr>\<rparr>"

definition no_match_entry :: "pystr \<Rightarrow> entry" where
  "no_match_entry q =
     \<lparr>Title = JStr (py ''No bookmarks found for '' @ [39] @ q @ [39]),
      SubTitle = Py (JStr (py ''Try a different search term'')),
      IcoPath = py ''icon.png'',
      JsonRPCAction = None\<rparr>"

section \<open>Mapping a bookmark to an entry\<close>

text \<open>
  The \<open>try\<close> around \<open>urlparse(url).netloc\<close>. For a \<open>str\<close> the result is the network
  location, or \<open>url\<close> itself when \<open>urlparse\<close> raises. A falsy value that is not a
  \<open>str\<close> is decoded as the empty string and the result is \<open>b''\<close>; a truthy one has
  no \<open>decode\<close>, the \<open>AttributeError\<close> is caught and the result is \<open>url\<close>.
\<close>

definition domain_of :: "env \<Rightarrow> json \<Rightarrow> pyval" where
  "domain_of E url =
     (case url of
        JStr u \<Rightarrow> (case urlparse_netloc E u of Some d \<Rightarrow> Py (JStr d) | None \<Rightarrow> Py url)
      | _ \<Rightarrow> (if truthy url then Py url else PyBytes []))"

text \<open>\<open>click_count > 0\<close>: defined on int and bool, \<open>TypeError\<close> otherwise.\<close>

definition gt_zero :: "json \<Rightarrow> pyerr + bool" where
  "gt_zero v = (case v of JInt n \<Rightarrow> Inr (0 < n) | JBool b \<Rightarrow> Inr b | _ \<Rightarrow> Inl TypeError)"

text \<open>The f-string \<open>" \<bullet> {click_count} clicks"\<close>; the bullet is code point 8226.\<close>

definition clicks_text :: "env \<Rightarrow> json \<Rightarrow> pystr" where
  "clicks_text E click_count =
     py '' '' @ [8226] @ py '' '' @ str_json (repr_str E) click_count @ py '' clicks''"

text \<open>
  \<open>subtitle += text\<close>: concatenation on a \<open>str\<close>; on a list the characters of the
  text are appended in place; \<open>TypeError\<close> on everything else.
\<close>

definition iadd_str :: "pyval \<Rightarrow> pystr \<Rightarrow> pyerr + pyval" where
  "iadd_str v t =
     (case v of
        Py (JStr s) \<Rightarrow> Inr (Py (JStr (s @ t)))
      | Py (JList xs) \<Rightarrow> Inr (Py (JList (xs @ map (\<lambda>c. JStr [c]) t)))
      | _ \<Rightarrow> Inl TypeError)"

text \<open>
  \<open>_bookmark_to_result\<close>. A list that \<open>+=\<close> extended in place is the object \<open>url\<close>
  names too, and the object \<open>title\<close> names when the bookmark has no \<open>title\<close> key;
  \<open>result\<close> therefore takes the final value of that object.
\<close>

definition bookmark_to_result :: "env \<Rightarrow> json \<Rightarrow> pyerr + entry" where
  "bookmark_to_result E bookmark =
     (case bookmark of
        JDict bm \<Rightarrow>
          (let url = dict_get bm (py ''url'') (JStr []);
               click_count = dict_get bm (py ''click_count'') (JInt 0);
               domain = domain_of E url;
               result = (\<lambda>subtitle url'.
                 \<lparr>Title = dict_get bm (py ''title'')
                            (if dict_has bm (py ''url'') then url' else JStr (py ''Untitled'')),
                  SubTitle = subtitle, IcoPath = py ''icon.png'',
                  JsonRPCAction = Some \<lparr>method = py ''open_bookmark'',
                                         parameters = [dict_get bm (py ''id'') (JStr []), url']\<rparr>\<rparr>)
           in case gt_zero click_count of
                Inl e \<Rightarrow> Inl e
              | Inr False \<Rightarrow> Inr (result domain url)
              | Inr True \<Rightarrow>
                  (case iadd_str domain (clicks_text E click_count) of
                     Inl e \<Rightarrow> Inl e
                   | Inr subtitle \<Rightarrow>
                       Inr (result subtitle
                              (case subtitle of Py (JList ys) \<Rightarrow> JList ys | _ \<Rightarrow> url))))
      | _ \<Rightarrow> Inl AttributeError)"

text \<open>
  \<open>for bm in bookmarks\<close>: the elements of a list, the characters of a string, the
  keys of a dict; \<open>TypeError\<close> on a bool or an int.
\<close>

definition iter_json :: "json \<Rightarrow> pyerr + json list" where
  "iter_json v =
     (case v of
        JList xs \<Rightarrow> Inr xs
      | JStr s \<Rightarrow> Inr (map (\<lambda>c. JStr [c]) s)
      | JDict kvs \<Rightarrow> Inr (map (\<lambda>kv. JStr (fst kv)) kvs)
      | _ \<Rightarrow> Inl TypeError)"

text \<open>The loop body \<open>results.append(self._bookmark_to_result(bm))\<close>.\<close>

fun append_results :: "env \<Rightarrow> entry list \<Rightarrow> json list \<Rightarrow> pyerr + entry list" where
  "append_results E results [] = Inr results"
| "append_results E results (bm # bms) =
     (case bookmark_to_result E bm of
        Inl e \<Rightarrow> Inl e
      | Inr r \<Rightarrow> append_results E (results @ [r]) bms)"

definition for_bookmarks :: "env \<Rightarrow> entry list \<Rightarrow> json \<Rightarrow> pyerr + entry list" where
  "for_bookmarks E results bookmarks =
     (case iter_json bookmarks of Inl e \<Rightarrow> Inl e | Inr bms \<Rightarrow> append_results E results bms)"

section \<open>The query dispatcher\<close>

text \<open>
  \<open>query\<close>: the entries returned, or the exception that leaves it, and the requests
  sent while it ran.
\<close>

definition query :: "env \<Rightarrow> plugin \<Rightarrow> pystr \<Rightarrow> (pyerr + entry list) \<times> http_request list" where
  "query E self q =
     (if \<not> has_requests E then (Inr [missing_requests_entry], [])
      else if startswith q (py ''config '') then
        (let parts = split1 (strip (drop 7 q))
         in if length parts = 2 then (Inr [config_confirm_entry (parts ! 0) (parts ! 1)], [])
            else (Inr [config_usage_entry], []))
      else if \<not> truthy (api_key self) then (Inr [not_configured_entry], [])
      else if strip q = [] then
        (let (bookmarks, calls) =
               api_request E self (py ''/quick-search'') [(py ''limit'', JInt 10)]
         in if bookmarks = JNull then (Inr [cannot_connect_entry E self], calls)
            else if \<not> truthy bookmarks then (Inr [no_bookmarks_entry self], calls)
            else (for_bookmarks E [top_header_entry] bookmarks, calls))
      else if startswith q (py ''add '') \<and> strip (drop 4 q) \<noteq> [] then
        (Inr [add_entry (strip (drop 4 q))], [])
      else if strip q = py ''open'' then (Inr [open_entry E self], [])
      else
        (let (bookmarks, calls) =
               api_request E self (py ''/quick-search'') [(py ''q'', JStr q), (py ''limit'', JInt 15)]
         in if bookmarks = JNull then (Inr [cannot_connect_entry E self], calls)
            else if \<not> truthy bookmarks then (Inr [no_match_entry q], calls)
            else (for_bookmarks E [] bookmarks, calls)))"

section \<open>Actions\<close>

text \<open>
  What a confirmed entry does: a URL handed to the browser, or a \<open>requests.post\<close>
  (URL, API key header, JSON body) whose outcome is ignored.
\<close>

datatype effect = BrowserOpen json | HttpPost pystr json "json option"

definition open_url :: "json \<Rightarrow> effect list" where
  "open_url url = [BrowserOpen url]"


definition add_bookmark :: "env \<Rightarrow> plugin \<Rightarrow> json \<Rightarrow> effect list" where
  "add_bookmark E self url =
     (if \<not> has_requests E then []
      else [HttpPost (str_json (repr_str E) (server_url self) @ py ''/api/bookmarks'')
              (api_key self) (Some (JDict [(py ''url'', url)]))])"


section \<open>Vocabulary of the properties\<close>




section \<open>Sample inputs\<close>

text \<open>
  A stand-in for \<open>urlparse(u).netloc\<close> on plain \<open>http://host/path\<close> URLs, and for
  \<open>repr\<close> on strings without quotes or escapes.
\<close>

definition sample_netloc :: "pystr \<Rightarrow> pystr option" where
  "sample_netloc u =
     (if startswith u (py ''http://'') then Some (takeWhile (\<lambda>c. c \<noteq> 47) (drop 7 u))
      else Some [])"

definition sample_repr :: "pystr \<Rightarrow> pystr" where
  "sample_repr s = [39] @ s @ [39]"

text \<open>
  An environment with \<open>requests\<close> installed and no server listening, the same without
  \<open>requests\<close>, and one whose server answers every request with one bookmark; plugins
  with and without an API key.
\<close>

definition offline_env :: env where
  "offline_env =
     \<lparr>has_requests = True, http_get = (\<lambda>r. Raises),
      urlparse_netloc = sample_netloc, repr_str = sample_repr\<rparr>"


definition sample_bookmark :: "int \<Rightarrow> json" where
  "sample_bookmark n =
     JDict [(py ''id'', JStr (py ''b1'')), (py ''url'', JStr (py ''http://a.b/x'')),
            (py ''title'', JStr (py ''A'')), (py ''click_count'', JInt n)]"


definition fresh_plugin :: plugin where
  "fresh_plugin = \<lparr>server_url = JStr (py ''http://localhost:3000''), api_key = JStr []\<rparr>"

definition keyed_plugin :: plugin where
  "keyed_plugin = \<lparr>server_url = JStr (py ''http://localhost:3000''), api_key = JStr (py ''k'')\<rparr>"

section \<open>Facts about dicts\<close>






section \<open>Configuration: saving and loading\<close>



text \<open>
  C10. Whenever \<open>save_config(u, k)\<close> returns \<open>False\<close>, the plugin afterwards is the
  plugin before: \<open>server_url\<close> and \<open>api_key\<close> keep their values.
\<close>

theorem save_config_failure_keeps_state:
  assumes "save_config w f self u k = (False, f', self')"
  shows "server_url self' = server_url self \<and> api_key self' = api_key self"
  using assms by (auto simp: save_config_def Let_def split: json.splits write_outcome.splits)

theorem save_config_failure_keeps_state_witness:
  "save_config WriteOk (Loaded (JList [])) keyed_plugin (JStr (py ''http://h:1'')) (JStr (py ''z''))
     = (False, Loaded (JList []), keyed_plugin)
   \<and> server_url keyed_plugin = server_url keyed_plugin
   \<and> api_key keyed_plugin = api_key keyed_plugin"
proof -
  have s: "save_config WriteOk (Loaded (JList [])) keyed_plugin (JStr (py ''http://h:1''))
             (JStr (py ''z'')) = (False, Loaded (JList []), keyed_plugin)"
    by (simp add: save_config_def read_config_def)
  show ?thesis
    using s save_config_failure_keeps_state [OF s] by simp
qed

text \<open>
  C9. For a configuration file that is absent, not loadable or holds a JSON object,
  \<open>load_config\<close> succeeds; \<open>server_url\<close> is the file's \<open>server_url\<close> value whenever
  that key is present, whether or not \<open>port\<close> is present too; with neither
  \<open>server_url\<close> nor \<open>port\<close> present it is \<open>"http://localhost:3000"\<close>; and \<open>api_key\<close>
  is the empty string when the file has no \<open>api_key\<close>.
\<close>

theorem load_config_precedence:
  assumes "read_config f = JDict config"
  shows "\<exists>p. load_config R f = Inr p \<and>
           (dict_has config (py ''server_url'') \<longrightarrow>
              server_url p = dict_get config (py ''server_url'') JNull) \<and>
           (\<not> dict_has config (py ''server_url'') \<and> \<not> dict_has config (py ''port'') \<longrightarrow>
              server_url p = JStr (py ''http://localhost:3000'')) \<and>
           (\<not> dict_has config (py ''api_key'') \<longrightarrow> api_key p = JStr [])"
  using assms by (simp add: load_config_def Let_def dict_get_def dict_has_def py_def)

theorem load_config_precedence_witness:
  "(\<exists>p. load_config (repr_str offline_env)
          (Loaded (JDict [(py ''port'', JInt 8080), (py ''server_url'', JStr (py ''http://h:1''))]))
          = Inr p
        \<and> server_url p = JStr (py ''http://h:1'') \<and> api_key p = JStr [])
   \<and> (\<exists>p. load_config (repr_str offline_env) NoFile = Inr p
        \<and> server_url p = JStr (py ''http://localhost:3000'') \<and> api_key p = JStr [])"
  using
    load_config_precedence [of "Loaded (JDict [(py ''port'', JInt 8080),
        (py ''server_url'', JStr (py ''http://h:1''))])"
      "[(py ''port'', JInt 8080), (py ''server_url'', JStr (py ''http://h:1''))]"
      "repr_str offline_env"]
    load_config_precedence [of NoFile "[]" "repr_str offline_env"]
  by (simp add: read_config_def dict_has_def dict_get_def py_def)

section \<open>Facts about strings\<close>

lemma strip_Cons_nonspace: "\<not> isspace c \<Longrightarrow> strip (c # r) = c # rev (dropWhile isspace (rev r))"
  by (simp add: strip_def dropWhile_append3)

lemma startswith_Cons: "startswith q (c # p) \<Longrightarrow> \<exists>r. q = c # r"
  by (cases q) (auto simp: startswith_def)

lemma config_head: "startswith q (py ''config '') \<Longrightarrow> \<exists>r. q = 99 # r"
  using startswith_Cons [of q 99 "py ''onfig ''"] by (simp add: py_def)

lemma add_head: "startswith q (py ''add '') \<Longrightarrow> \<exists>r. q = 97 # r"
  using startswith_Cons [of q 97 "py ''dd ''"] by (simp add: py_def)

lemma strip_config: "startswith q (py ''config '') \<Longrightarrow> \<exists>t. strip q = 99 # t"
  by (auto dest!: config_head simp: strip_Cons_nonspace isspace_def)

lemma strip_add: "startswith q (py ''add '') \<Longrightarrow> \<exists>t. strip q = 97 # t"
  by (auto dest!: add_head simp: strip_Cons_nonspace isspace_def)

lemma open_head: "py ''open'' = 111 # py ''pen''"
  by (simp add: py_def)


lemma strip_open_not_command:
  assumes "strip q = py ''open''"
  shows "\<not> startswith q (py ''config '')" "\<not> startswith q (py ''add '')" "strip q \<noteq> []"
  using assms strip_config [of q] strip_add [of q] by (auto simp: open_head)

lemma add_not_config:
  assumes "startswith q (py ''add '')"
  shows "\<not> startswith q (py ''config '')" "strip q \<noteq> []"
  using assms strip_config [of q] strip_add [of q] by auto


section \<open>Queries without an API key\<close>

text \<open>
  C1, as the code has it. With \<open>requests\<close> available and no API key, every query
  returns exactly one entry and sends nothing. For a query that does not begin with
  \<open>"config "\<close> the entry is the "not configured" message, which has no action; for
  one that does, it is the usage hint or the confirmation entry of the \<open>config\<close>
  command.
\<close>

theorem query_without_api_key:
  assumes "has_requests E" and "\<not> truthy (api_key self)"
  shows "snd (query E self q) = [] \<and>
         (\<exists>e. fst (query E self q) = Inr [e]) \<and>
         (\<not> startswith q (py ''config '') \<longrightarrow> fst (query E self q) = Inr [not_configured_entry]) \<and>
         (startswith q (py ''config '') \<longrightarrow>
            fst (query E self q) = Inr [config_usage_entry] \<or>
            (\<exists>url key. fst (query E self q) = Inr [config_confirm_entry url key]))"
  using assms by (auto simp: query_def Let_def)

theorem query_without_api_key_witness:
  "has_requests offline_env \<and> \<not> truthy (api_key fresh_plugin) \<and>
   \<not> startswith (py ''add x'') (py ''config '') \<and>
   query offline_env fresh_plugin (py ''add x'') = (Inr [not_configured_entry], []) \<and>
   startswith (py ''config x'') (py ''config '') \<and>
   query offline_env fresh_plugin (py ''config x'') = (Inr [config_usage_entry], [])"
  using query_without_api_key [of offline_env fresh_plugin "py ''add x''"]
    query_without_api_key [of offline_env fresh_plugin "py ''config x''"]
  by (simp add: offline_env_def fresh_plugin_def query_def startswith_def py_def
      strip_def split1_def isspace_def)

text \<open>
  C1 as stated fails: with no API key, \<open>config http://h k\<close> returns the confirmation
  entry, whose action saves the configuration; it is not an informational message.
\<close>

theorem config_without_api_key_counterexample:
  "has_requests offline_env \<and> api_key fresh_plugin = JStr [] \<and>
   query offline_env fresh_plugin (py ''config http://h k'') =
     (Inr [config_confirm_entry (py ''http://h'') (py ''k'')], []) \<and>
   JsonRPCAction (config_confirm_entry (py ''http://h'') (py ''k'')) =
     Some \<lparr>method = py ''configure'', parameters = [JStr (py ''http://h''), JStr (py ''k'')]\<rparr> \<and>
   config_confirm_entry (py ''http://h'') (py ''k'') \<noteq> not_configured_entry"
  by (simp add: offline_env_def fresh_plugin_def query_def startswith_def py_def Let_def
      strip_def split1_def isspace_def config_confirm_entry_def not_configured_entry_def)

section \<open>The commands\<close>






text \<open>
  C7, as the code has it. With \<open>requests\<close> available and an API key configured, a
  query that is \<open>"open"\<close> after trimming returns exactly one entry, whose action is
  \<open>open_url\<close> with the configured server URL: the browser is given that URL. Nothing
  is sent.
\<close>

theorem query_open:
  assumes "has_requests E" and "truthy (api_key self)" and "strip q = py ''open''"
  shows "query E self q = (Inr [open_entry E self], []) \<and>
         JsonRPCAction (open_entry E self) =
           Some \<lparr>method = py ''open_url'', parameters = [server_url self]\<rparr> \<and>
         open_url (server_url self) = [BrowserOpen (server_url self)]"
  using assms strip_open_not_command [OF assms(3)]
  by (simp add: query_def open_entry_def open_url_def)

theorem query_open_witness:
  "has_requests offline_env \<and> truthy (api_key keyed_plugin) \<and>
   strip (py '' open '') = py ''open'' \<and>
   query offline_env keyed_plugin (py '' open '') = (Inr [open_entry offline_env keyed_plugin], []) \<and>
   JsonRPCAction (open_entry offline_env keyed_plugin) =
     Some \<lparr>method = py ''open_url'', parameters = [JStr (py ''http://localhost:3000'')]\<rparr>"
  using query_open [of offline_env keyed_plugin "py '' open ''"]
  by (simp add: offline_env_def keyed_plugin_def py_def strip_def isspace_def)

text \<open>
  C7 as stated fails: with no API key, \<open>open\<close> returns the "not configured" message,
  which has no action.
\<close>

theorem open_without_api_key_counterexample:
  "strip (py ''open'') = py ''open'' \<and>
   query offline_env fresh_plugin (py ''open'') = (Inr [not_configured_entry], []) \<and>
   JsonRPCAction not_configured_entry = None"
  by (simp add: offline_env_def fresh_plugin_def query_def startswith_def py_def
      strip_def isspace_def not_configured_entry_def)

text \<open>
  C8, as the code has it. With \<open>requests\<close> available and an API key configured, a
  query that begins with \<open>"add "\<close> and whose remaining text is not blank returns
  exactly one entry, whose action is \<open>add_bookmark\<close> with the trimmed remaining text:
  that text is posted as the \<open>url\<close> of a new bookmark. Nothing is sent while the
  query is evaluated.
\<close>

theorem query_add:
  assumes "has_requests E" and "truthy (api_key self)"
    and "startswith q (py ''add '')" and "strip (drop 4 q) \<noteq> []"
  shows "query E self q = (Inr [add_entry (strip (drop 4 q))], []) \<and>
         JsonRPCAction (add_entry (strip (drop 4 q))) =
           Some \<lparr>method = py ''add_bookmark'', parameters = [JStr (strip (drop 4 q))]\<rparr> \<and>
         add_bookmark E self (JStr (strip (drop 4 q))) =
           [HttpPost (str_json (repr_str E) (server_url self) @ py ''/api/bookmarks'') (api_key self)
              (Some (JDict [(py ''url'', JStr (strip (drop 4 q)))]))]"
  using assms add_not_config [OF assms(3)]
  by (simp add: query_def add_entry_def add_bookmark_def)

theorem query_add_witness:
  "has_requests offline_env \<and> truthy (api_key keyed_plugin) \<and>
   startswith (py ''add http://a.b/x '') (py ''add '') \<and>
   strip (drop 4 (py ''add http://a.b/x '')) = py ''http://a.b/x'' \<and>
   query offline_env keyed_plugin (py ''add http://a.b/x '') =
     (Inr [add_entry (py ''http://a.b/x'')], [])"
proof -
  have s: "strip (drop 4 (py ''add http://a.b/x '')) = py ''http://a.b/x''"
    by (simp add: py_def strip_def isspace_def)
  show ?thesis
    using query_add [of offline_env keyed_plugin "py ''add http://a.b/x ''"]
    by (simp add: s) (simp add: offline_env_def keyed_plugin_def py_def startswith_def)
qed

text \<open>
  C8 as stated fails: \<open>"add "\<close> with nothing after it is not an \<open>add\<close> command; the
  query falls through to the search, sends a request and here returns the
  "cannot connect" message.
\<close>

theorem add_blank_counterexample:
  "startswith (py ''add '') (py ''add '') \<and> truthy (api_key keyed_plugin) \<and>
   query offline_env keyed_plugin (py ''add '') =
     (Inr [cannot_connect_entry offline_env keyed_plugin],
      [\<lparr>req_url = py ''http://localhost:3000/api/quick-search'', req_api_key = JStr (py ''k''),
        req_params = [(py ''q'', JStr (py ''add '')), (py ''limit'', JInt 15)]\<rparr>]) \<and>
   JsonRPCAction (cannot_connect_entry offline_env keyed_plugin) = None"
  by (simp add: offline_env_def keyed_plugin_def query_def startswith_def py_def
      strip_def isspace_def api_request_def rstrip_slash_def Let_def cannot_connect_entry_def)

section \<open>Queries that reach the remote service\<close>











section \<open>The fields of a bookmark's entry\<close>

text \<open>
  C6. Take a bookmark whose \<open>url\<close> is a string (or absent, which counts as the empty
  string), on which \<open>urlparse\<close> succeeds with network location \<open>host\<close>, and whose
  \<open>click_count\<close> is an integer \<open>n\<close> (or absent, which counts as 0). Its entry has as
  title the bookmark's \<open>title\<close> if it has one, else its \<open>url\<close> if it has one, else
  \<open>"Untitled"\<close>. For \<open>n > 0\<close> the subtitle is \<open>host\<close> followed by the bullet and
  \<open>"<n> clicks"\<close>, so it ends in \<open>"<n> clicks"\<close>; for \<open>n = 0\<close> the subtitle is
  \<open>host\<close> alone.
\<close>

theorem bookmark_entry_fields:
  assumes "dict_get bm (py ''url'') (JStr []) = JStr u"
    and "urlparse_netloc E u = Some host"
    and "dict_get bm (py ''click_count'') (JInt 0) = JInt n"
  shows "\<exists>e. bookmark_to_result E (JDict bm) = Inr e \<and>
           Title e = (if dict_has bm (py ''title'') then dict_get bm (py ''title'') JNull
                      else if dict_has bm (py ''url'') then dict_get bm (py ''url'') JNull
                      else JStr (py ''Untitled'')) \<and>
           (0 < n \<longrightarrow>
              SubTitle e = Py (JStr (host @ py '' '' @ [8226] @ py '' '' @ str_int n @ py '' clicks'')) \<and>
              (\<exists>t. SubTitle e = Py (JStr t) \<and> suffix (str_int n @ py '' clicks'') t)) \<and>
           (n = 0 \<longrightarrow> SubTitle e = Py (JStr host))"
proof -
  let ?title = "dict_get bm (py ''title'')
                  (if dict_has bm (py ''url'') then JStr u else JStr (py ''Untitled''))"
  let ?action = "Some \<lparr>method = py ''open_bookmark'',
                         parameters = [dict_get bm (py ''id'') (JStr []), JStr u]\<rparr>"
  have t: "?title =
             (if dict_has bm (py ''title'') then dict_get bm (py ''title'') JNull
              else if dict_has bm (py ''url'') then dict_get bm (py ''url'') JNull
              else JStr (py ''Untitled''))"
    using assms(1) by (auto simp: dict_get_def dict_has_def split: option.splits)
  have d: "domain_of E (JStr u) = Py (JStr host)"
    using assms(2) by (simp add: domain_of_def)
  have c: "clicks_text E (JInt n) = py '' '' @ [8226] @ py '' '' @ str_int n @ py '' clicks''"
    by (simp add: clicks_text_def str_json_def)
  show ?thesis
  proof (cases "0 < n")
    case True
    let ?sub = "host @ py '' '' @ [8226] @ py '' '' @ str_int n @ py '' clicks''"
    have "bookmark_to_result E (JDict bm) =
            Inr \<lparr>Title = ?title, SubTitle = Py (JStr ?sub), IcoPath = py ''icon.png'',
                 JsonRPCAction = ?action\<rparr>"
      using True by (simp add: bookmark_to_result_def Let_def assms(1,3) d c gt_zero_def iadd_str_def)
    moreover have "suffix (str_int n @ py '' clicks'') ?sub"
      by (simp add: suffix_def)
    ultimately show ?thesis
      using True t by auto
  next
    case False
    have "bookmark_to_result E (JDict bm) =
            Inr \<lparr>Title = ?title, SubTitle = Py (JStr host), IcoPath = py ''icon.png'',
                 JsonRPCAction = ?action\<rparr>"
      using False by (simp add: bookmark_to_result_def Let_def assms(1,3) d gt_zero_def)
    then show ?thesis
      using False t by auto
  qed
qed

theorem bookmark_entry_fields_witness:
  "(\<exists>e. bookmark_to_result offline_env (sample_bookmark 5) = Inr e \<and>
        Title e = JStr (py ''A'') \<and>
        SubTitle e = Py (JStr (py ''a.b '' @ [8226] @ py '' 5 clicks'')) \<and>
        (\<exists>t. SubTitle e = Py (JStr t) \<and> suffix (py ''5 clicks'') t)) \<and>
   (\<exists>e. bookmark_to_result offline_env (sample_bookmark 0) = Inr e \<and>
        Title e = JStr (py ''A'') \<and> SubTitle e = Py (JStr (py ''a.b'')))"
proof -
  let ?bm = "\<lambda>k. [(py ''id'', JStr (py ''b1'')), (py ''url'', JStr (py ''http://a.b/x'')),
                   (py ''title'', JStr (py ''A'')), (py ''click_count'', JInt k)]"
  have n: "urlparse_netloc offline_env (py ''http://a.b/x'') = Some (py ''a.b'')"
    by (simp add: offline_env_def sample_netloc_def startswith_def py_def)
  have s: "str_int 5 = py ''5''"
    by (simp add: str_int_def digits.simps py_def)
  have u: "dict_get (?bm k) (py ''url'') (JStr []) = JStr (py ''http://a.b/x'')" for k
    by (simp add: dict_get_def py_def)
  have c: "dict_get (?bm k) (py ''click_count'') (JInt 0) = JInt k" for k
    by (simp add: dict_get_def py_def)
  have t: "dict_has (?bm k) (py ''title'')" "dict_get (?bm k) (py ''title'') JNull = JStr (py ''A'')"
    for k
    by (simp_all add: dict_has_def dict_get_def py_def)
  have "\<exists>e. bookmark_to_result offline_env (sample_bookmark 5) = Inr e \<and>
        Title e = JStr (py ''A'') \<and>
        SubTitle e = Py (JStr (py ''a.b '' @ [8226] @ py '' 5 clicks'')) \<and>
        (\<exists>t. SubTitle e = Py (JStr t) \<and> suffix (py ''5 clicks'') t)"
    using bookmark_entry_fields [OF u n c, of 5]
    by (simp add: sample_bookmark_def s t) (simp add: py_def)
  moreover have "\<exists>e. bookmark_to_result offline_env (sample_bookmark 0) = Inr e \<and>
        Title e = JStr (py ''A'') \<and> SubTitle e = Py (JStr (py ''a.b''))"
    using bookmark_entry_fields [OF u n c, of 0]
    by (simp add: sample_bookmark_def t)
  ultimately show ?thesis by simp
qed

end
